theory Spec2Isabelle
  imports Main "HOL-Library.Sublist" "HOL-Library.Char_ord" "HOL-Library.List_Lexorder"
begin

section \<open>Flow definitions (NangoSyncConfig)\<close>

text \<open>
  A flow is a sync or an action script. Its endpoints are objects keyed by HTTP verb
  (\<^verbatim>\<open>{ GET: '/contacts' }\<close>); an object is kept as the list of its entries in the order
  \<^verbatim>\<open>Object.entries\<close> yields them. The persisted identifier is present only for flows read
  from the database.
\<close>

datatype flow_type = SyncType | ActionType

type_synonym endpoint_obj = "(string \<times> string) list"

record flow =
  name :: string
  ftype :: flow_type
  endpoints :: "endpoint_obj list"
  returns :: "string list"
  enabled :: bool
  fid :: "nat option"

subsection \<open>The JavaScript values that \<^verbatim>\<open>containsSameEndpoint\<close> handles\<close>

text \<open>
  \<^verbatim>\<open>Object.entries(endpointObjA)\<close> is an array of fresh two-element arrays
  \<^verbatim>\<open>[verb, path]\<close>. The source indexes that outer array with 0 and 1, so it handles
  \<^verbatim>\<open>undefined\<close>, strings and arrays. An array used as a property key is converted to
  a string (its elements joined by commas); \<^verbatim>\<open>===\<close> on an array compares references,
  and the arrays made by \<^verbatim>\<open>Object.entries\<close> are referenced from nowhere else.
\<close>

datatype js_value = JUndefined | JString string | JArray "string list"

fun truthy :: "js_value \<Rightarrow> bool" where
  "truthy JUndefined = False"
| "truthy (JString s) = (s \<noteq> [])"
| "truthy (JArray xs) = True"

fun join_comma :: "string list \<Rightarrow> string" where
  "join_comma [] = []"
| "join_comma [x] = x"
| "join_comma (x # y # ys) = x @ '','' @ join_comma (y # ys)"

fun toPropertyKey :: "js_value \<Rightarrow> string" where
  "toPropertyKey JUndefined = ''undefined''"
| "toPropertyKey (JString s) = s"
| "toPropertyKey (JArray xs) = join_comma xs"

fun strict_equals :: "js_value \<Rightarrow> js_value \<Rightarrow> bool" where
  "strict_equals JUndefined JUndefined = True"
| "strict_equals (JString a) (JString b) = (a = b)"
| "strict_equals _ _ = False"

definition object_entries :: "endpoint_obj \<Rightarrow> js_value list" where
  "object_entries obj = map (\<lambda>(k, v). JArray [k, v]) obj"

definition js_index :: "js_value list \<Rightarrow> nat \<Rightarrow> js_value" where
  "js_index xs i = (if i < length xs then xs ! i else JUndefined)"

definition js_get :: "endpoint_obj \<Rightarrow> string \<Rightarrow> js_value" where
  "js_get obj k = (case map_of obj k of None \<Rightarrow> JUndefined | Some v \<Rightarrow> JString v)"

subsection \<open>Equivalence of a template flow with the installed flows\<close>

definition containsSameEndpoint :: "flow \<Rightarrow> flow \<Rightarrow> bool" where
  "containsSameEndpoint flowA flowB =
     list_ex (\<lambda>endpointObjA.
        let endpointA = object_entries endpointObjA in
        list_ex (\<lambda>endpointObjB.
           truthy (js_get endpointObjB (toPropertyKey (js_index endpointA 0))) \<and>
           strict_equals (js_get endpointObjB (toPropertyKey (js_index endpointA 0)))
                         (js_index endpointA 1))
         (endpoints flowB))
      (endpoints flowA)"

text \<open>
  \<^verbatim>\<open>flow.returns.find((model) => modelsName.has(model))\<close> yields the first return-type
  name of the installed flow that the template also returns, or \<^verbatim>\<open>undefined\<close>; the
  \<^verbatim>\<open>if\<close> then tests that value for truthiness.
\<close>

definition returns_find :: "flow \<Rightarrow> flow \<Rightarrow> js_value" where
  "returns_find flow templateFlow =
     (case find (\<lambda>model. model \<in> set (returns templateFlow)) (returns flow) of
        None \<Rightarrow> JUndefined
      | Some model \<Rightarrow> JString model)"

fun hasSimilarFlow :: "flow \<Rightarrow> flow list \<Rightarrow> bool" where
  "hasSimilarFlow templateFlow [] = False"
| "hasSimilarFlow templateFlow (flow # list) =
     (if ftype flow = ftype templateFlow \<and> name flow = name templateFlow then True
      else if ftype flow = SyncType \<and> truthy (returns_find flow templateFlow) then True
      else if containsSameEndpoint flow templateFlow then True
      else hasSimilarFlow templateFlow list)"

text \<open>The loop of the read path that appends the templates that are not suppressed.\<close>

fun pushTemplateFlows :: "flow list \<Rightarrow> flow list \<Rightarrow> flow list \<Rightarrow> flow list" where
  "pushTemplateFlows [] dbFlows finalFlows = finalFlows"
| "pushTemplateFlows (templateFlow # rest) dbFlows finalFlows =
     (if hasSimilarFlow templateFlow dbFlows
      then pushTemplateFlows rest dbFlows finalFlows
      else pushTemplateFlows rest dbFlows (finalFlows @ [templateFlow]))"

definition resolveFlows :: "flow list \<Rightarrow> flow list \<Rightarrow> flow list" where
  "resolveFlows dbFlows templateFlows = pushTemplateFlows templateFlows dbFlows dbFlows"

section \<open>Provider Config Registry (config.service.ts)\<close>

text \<open>
  The rows of \<^verbatim>\<open>_nango_configs\<close> and \<^verbatim>\<open>_nango_connections\<close> share the identifier,
  the environment and the soft-delete columns. A table is the list of its rows in the
  order a query without \<^verbatim>\<open>ORDER BY\<close> returns them. Database failures are not modelled.
\<close>

record row =
  row_id :: "nat option"
  environment_id :: nat
  deleted :: bool
  deleted_at :: "nat option"

record config = row +
  unique_key :: string
  provider :: string
  oauth_client_secret :: "string option"
  oauth_client_secret_iv :: "string option"
  oauth_client_secret_tag :: "string option"

record connection = row +
  provider_config_key :: string
  connection_id :: string

record sync =
  sync_id :: nat
  nango_connection_id :: "nat option"
  sync_name :: string

record sync_config =
  sync_config_id :: nat
  nango_config_id :: nat

datatype exn = Exn (exn_message: string) (exn_name: string)

datatype log_level = Debug | Error

datatype log_content =
    Beginning string nat
  | Finished string nat
  | ErrorStarting string nat exn

record log_message =
  level :: log_level
  activity_log_id :: "nat option"
  content :: log_content

record client_call =
  cc_connection :: connection
  cc_sync :: sync
  cc_config :: "config option"
  cc_syncName :: string
  cc_returns :: "string list"
  cc_debug :: bool

text \<open>
  The state every service works on: the tables, the files on disk, the activity log, the
  commands the continuous sync client accepted, and the arguments of every call made to
  the encryption manager.
\<close>

record world =
  nango_configs :: "config list"
  nango_connections :: "connection list"
  nango_syncs :: "sync list"
  nango_schedules :: "nat list"
  nango_sync_configs :: "sync_config list"
  sync_files :: "nat list"
  activity_log :: "log_message list"
  client_calls :: "client_call list"
  encrypt_calls :: "config list"
  decrypt_calls :: "config list"
  next_id :: nat

text \<open>
  The encryption manager is not part of the sources: it is taken as a parameter, a pair of
  functions, and every call to it is recorded in the state.
\<close>

record encryptionManager =
  encryptProviderConfig :: "config \<Rightarrow> config"
  decryptProviderConfig :: "config \<Rightarrow> config option"

definition call_encryptProviderConfig ::
  "encryptionManager \<Rightarrow> config \<Rightarrow> world \<Rightarrow> config \<times> world" where
  "call_encryptProviderConfig mgr c w =
     (encryptProviderConfig mgr c, w\<lparr>encrypt_calls := encrypt_calls w @ [c]\<rparr>)"

definition call_decryptProviderConfig ::
  "encryptionManager \<Rightarrow> config \<Rightarrow> world \<Rightarrow> config option \<times> world" where
  "call_decryptProviderConfig mgr c w =
     (decryptProviderConfig mgr c, w\<lparr>decrypt_calls := decrypt_calls w @ [c]\<rparr>)"

definition js_of_option :: "string option \<Rightarrow> js_value" where
  "js_of_option s = (case s of None \<Rightarrow> JUndefined | Some v \<Rightarrow> JString v)"

definition getProviderName :: "string \<Rightarrow> world \<Rightarrow> string option" where
  "getProviderName providerConfigKey w =
     (case filter (\<lambda>r. unique_key r = providerConfigKey \<and> \<not> deleted r) (nango_configs w) of
        [] \<Rightarrow> None
      | result0 # _ \<Rightarrow> Some (provider result0))"

definition getProviderConfig ::
  "encryptionManager \<Rightarrow> string \<Rightarrow> nat \<Rightarrow> world \<Rightarrow> config option \<times> world" where
  "getProviderConfig mgr providerConfigKey env w =
     (case find (\<lambda>r. unique_key r = providerConfigKey \<and> environment_id r = env \<and> \<not> deleted r)
             (nango_configs w) of
        None \<Rightarrow> (None, w)
      | Some result \<Rightarrow> call_decryptProviderConfig mgr result w)"

fun decrypt_each ::
  "encryptionManager \<Rightarrow> config list \<Rightarrow> world \<Rightarrow> config list \<times> world" where
  "decrypt_each mgr [] w = ([], w)"
| "decrypt_each mgr (c # cs) w =
     (let (d, w1) = call_decryptProviderConfig mgr c w;
          (ds, w2) = decrypt_each mgr cs w1
      in (case d of None \<Rightarrow> ds | Some x \<Rightarrow> x # ds, w2))"

definition listProviderConfigs ::
  "encryptionManager \<Rightarrow> nat \<Rightarrow> world \<Rightarrow> config list \<times> world" where
  "listProviderConfigs mgr env w =
     decrypt_each mgr (filter (\<lambda>r. environment_id r = env \<and> \<not> deleted r) (nango_configs w)) w"

text \<open>
  \<^verbatim>\<open>insert(configToInsert).returning('*')\<close>: the row stored is the object given, with
  the identifier drawn from the table's sequence when the object has none.
\<close>

definition createProviderConfig ::
  "encryptionManager \<Rightarrow> config \<Rightarrow> world \<Rightarrow> config option \<times> world" where
  "createProviderConfig mgr c w =
     (let (configToInsert, w1) =
            (if truthy (js_of_option (oauth_client_secret c))
             then call_encryptProviderConfig mgr c w else (c, w));
          res0 = (case row_id configToInsert of
                    None \<Rightarrow> configToInsert\<lparr>row_id := Some (next_id w1)\<rparr>
                  | Some _ \<Rightarrow> configToInsert)
      in (Some res0,
          w1\<lparr>nango_configs := nango_configs w1 @ [res0], next_id := Suc (next_id w1)\<rparr>))"

definition toLowerCase :: "string \<Rightarrow> string" where
  "toLowerCase s =
     map (\<lambda>c. if CHR ''A'' \<le> c \<and> c \<le> CHR ''Z'' then char_of (of_char c + (32::nat)) else c) s"

datatype nango_error = unknown_provider_config | undefined_binding

text \<open>
  \<^verbatim>\<open>nanoid(4)\<close> is random: the identifier it returns is the parameter \<open>nanoid4\<close>.
  The count query yields the number of matching rows as a decimal string, which is
  \<^verbatim>\<open>'0'\<close> exactly when no row matches.
\<close>

definition createEmptyProviderConfig ::
  "string \<Rightarrow> encryptionManager \<Rightarrow> string \<Rightarrow> nat \<Rightarrow> world \<Rightarrow> (nango_error + config) \<times> world" where
  "createEmptyProviderConfig nanoid4 mgr prov env w =
     (let exists_count =
            length (filter (\<lambda>r. provider r = prov \<and> environment_id r = env \<and> \<not> deleted r)
                      (nango_configs w));
          (c, w1) = createProviderConfig mgr
            \<lparr>row_id = None, environment_id = env, deleted = False, deleted_at = None,
             unique_key = (if exists_count = 0 then prov
                           else prov @ ''-'' @ toLowerCase nanoid4),
             provider = prov, oauth_client_secret = None,
             oauth_client_secret_iv = None, oauth_client_secret_tag = None\<rparr> w
      in case c of
           None \<Rightarrow> (Inl unknown_provider_config, w1)
         | Some created \<Rightarrow> (Inr created, w1))"

text \<open>
  \<^verbatim>\<open>update(object)\<close> sets the columns for which the object has a defined property and
  leaves the other columns of the row as they are; an absent property is \<open>None\<close>.
\<close>

definition set_defined_columns :: "config \<Rightarrow> config \<Rightarrow> config" where
  "set_defined_columns obj r =
     r\<lparr>row_id := (case row_id obj of None \<Rightarrow> row_id r | Some i \<Rightarrow> Some i),
       environment_id := environment_id obj,
       deleted := deleted obj,
       deleted_at := (case deleted_at obj of None \<Rightarrow> deleted_at r | Some d \<Rightarrow> Some d),
       unique_key := unique_key obj,
       provider := provider obj,
       oauth_client_secret :=
         (case oauth_client_secret obj of None \<Rightarrow> oauth_client_secret r | Some x \<Rightarrow> Some x),
       oauth_client_secret_iv :=
         (case oauth_client_secret_iv obj of None \<Rightarrow> oauth_client_secret_iv r | Some x \<Rightarrow> Some x),
       oauth_client_secret_tag :=
         (case oauth_client_secret_tag obj of None \<Rightarrow> oauth_client_secret_tag r
          | Some x \<Rightarrow> Some x)\<rparr>"


subsection \<open>Deleting a provider configuration\<close>

text \<open>
  Modelled from the spec: \<^verbatim>\<open>syncManager.deleteSyncsByProviderConfig\<close>,
  \<^verbatim>\<open>deleteSyncFilesForConfig\<close> and \<^verbatim>\<open>deleteByConfigId\<close> are not part of the sources.
  The first deletes every sync, with its schedule, of every connection under the provider
  configuration; the second deletes the files on disk of the configuration; the third
  deletes the flow config rows of the configuration.
\<close>

definition deleteSyncsByProviderConfig :: "nat \<Rightarrow> string \<Rightarrow> world \<Rightarrow> world" where
  "deleteSyncsByProviderConfig env providerConfigKey w =
     (let under = (\<lambda>s. \<exists>c \<in> set (nango_connections w).
                      provider_config_key c = providerConfigKey \<and> environment_id c = env \<and>
                      row_id c \<noteq> None \<and> row_id c = nango_connection_id s);
          gone = map sync_id (filter under (nango_syncs w))
      in w\<lparr>nango_syncs := filter (\<lambda>s. \<not> under s) (nango_syncs w),
           nango_schedules := filter (\<lambda>i. i \<notin> set gone) (nango_schedules w)\<rparr>)"

definition deleteSyncFilesForConfig :: "nat \<Rightarrow> nat \<Rightarrow> world \<Rightarrow> world" where
  "deleteSyncFilesForConfig i env w = w\<lparr>sync_files := filter (\<lambda>j. j \<noteq> i) (sync_files w)\<rparr>"

definition deleteSyncConfigByConfigId :: "nat \<Rightarrow> world \<Rightarrow> world" where
  "deleteSyncConfigByConfigId i w =
     w\<lparr>nango_sync_configs := filter (\<lambda>sc. nango_config_id sc \<noteq> i) (nango_sync_configs w)\<rparr>"

text \<open>
  The two \<^verbatim>\<open>new Date()\<close> of the source are the parameters \<open>date1\<close> and \<open>date2\<close>;
  \<open>isCloud\<close> is the deployment flag.
\<close>

definition deleteProviderConfig ::
  "bool \<Rightarrow> nat \<Rightarrow> nat \<Rightarrow> nat \<Rightarrow> nat \<Rightarrow> string \<Rightarrow> world \<Rightarrow> bool \<times> world" where
  "deleteProviderConfig isCloud date1 date2 i environmentId providerConfigKey w =
     (let w1 = deleteSyncsByProviderConfig environmentId providerConfigKey w;
          w2 = (if isCloud then deleteSyncFilesForConfig i environmentId w1 else w1);
          w3 = deleteSyncConfigByConfigId i w2;
          hit = (\<lambda>r. row_id r = Some i \<and> \<not> deleted r);
          updated = length (filter hit (nango_configs w3));
          w4 = w3\<lparr>nango_configs :=
                    map (\<lambda>r. if hit r then r\<lparr>deleted := True, deleted_at := Some date1\<rparr> else r)
                      (nango_configs w3)\<rparr>
      in if updated \<le> 0 then (False, w4)
         else
           (True,
            w4\<lparr>nango_connections :=
                 map (\<lambda>c. if provider_config_key c = providerConfigKey \<and>
                              environment_id c = environmentId \<and> \<not> deleted c
                           then c\<lparr>deleted := True, deleted_at := Some date2\<rparr> else c)
                   (nango_connections w4)\<rparr>))"

section \<open>The read path of the flow catalog (getIntegrationFlows)\<close>

record standardNangoConfig =
  flows_providerConfigKey :: string
  actions :: "flow list"
  syncs :: "flow list"

datatype response = Status400 string | Status404 string | Status200 "flow list"

text \<open>
  The request validation, the bundled templates and the reader of the installed flows are
  not part of the sources. They are parameters: \<open>emptyQuery\<close> tells that the query
  string was refused, \<open>valParams\<close> is the validated key if any, and
  \<open>getSyncConfigsAsStandardConfig\<close> reads the installed flows.
\<close>

definition flows_of :: "standardNangoConfig option \<Rightarrow> flow list" where
  "flows_of c = (case c of None \<Rightarrow> [] | Some t \<Rightarrow> actions t @ syncs t)"

definition getIntegrationFlows ::
  "bool \<Rightarrow> string option \<Rightarrow> nat \<Rightarrow> encryptionManager \<Rightarrow> standardNangoConfig list \<Rightarrow>
   (nat \<Rightarrow> string \<Rightarrow> standardNangoConfig option) \<Rightarrow> world \<Rightarrow> response \<times> world" where
  "getIntegrationFlows emptyQuery valParams environment mgr availablePublicFlows
       getSyncConfigsAsStandardConfig w =
     (if emptyQuery then (Status400 ''invalid_query_params'', w)
      else case valParams of
        None \<Rightarrow> (Status400 ''invalid_uri_params'', w)
      | Some key \<Rightarrow>
          (case getProviderConfig mgr key environment w of
             (None, w1) \<Rightarrow> (Status404 ''not_found'', w1)
           | (Some integration, w1) \<Rightarrow>
               (let template = find (\<lambda>f. flows_providerConfigKey f = provider integration)
                                 availablePublicFlows;
                    allFlows = getSyncConfigsAsStandardConfig environment key;
                    dbFlows = flows_of allFlows;
                    templateFlows = flows_of template
                in (Status200 (resolveFlows dbFlows templateFlows), w1))))"

text \<open>
  The equivalence as the specification words it, and the catalog it describes: the
  installed flows, then the templates with no equivalent installed flow.
\<close>

definition shares_endpoint :: "flow \<Rightarrow> flow \<Rightarrow> bool" where
  "shares_endpoint T I = list_ex (\<lambda>e. e \<in> set (concat (endpoints I))) (concat (endpoints T))"

definition spec_equivalent :: "flow \<Rightarrow> flow \<Rightarrow> bool" where
  "spec_equivalent T I \<longleftrightarrow>
     (ftype T = ftype I \<and> name T = name I) \<or>
     (ftype T = SyncType \<and> ftype I = SyncType \<and> list_ex (\<lambda>m. m \<in> set (returns I)) (returns T)) \<or>
     shares_endpoint T I"

definition spec_catalog :: "flow list \<Rightarrow> flow list \<Rightarrow> flow list" where
  "spec_catalog dbFlows templateFlows =
     dbFlows @ filter (\<lambda>T. \<not> list_ex (spec_equivalent T) dbFlows) templateFlows"

section \<open>Sync Lifecycle Orchestrator (orchestrator.service.ts)\<close>

record incomingSyncConfig =
  models :: "string list"
  runs :: string

text \<open>
  Modelled from the spec: \<^verbatim>\<open>createSync\<close> and \<^verbatim>\<open>createActivityLogMessage\<close> are not part
  of the sources. The first creates a persisted Sync record for the connection and returns
  it; the second appends a structured entry to the activity log (its timestamp is left
  out).
\<close>

definition createSync :: "nat option \<Rightarrow> string \<Rightarrow> world \<Rightarrow> sync \<times> world" where
  "createSync nango_conn_id syncName w =
     (let created = \<lparr>sync_id = next_id w, nango_connection_id = nango_conn_id,
                     sync_name = syncName\<rparr>
      in (created, w\<lparr>nango_syncs := nango_syncs w @ [created], next_id := Suc (next_id w)\<rparr>))"

definition createActivityLogMessage :: "log_message \<Rightarrow> world \<Rightarrow> world" where
  "createActivityLogMessage m w = w\<lparr>activity_log := activity_log w @ [m]\<rparr>"

text \<open>
  The continuous sync client is a black box: \<open>None\<close> when \<^verbatim>\<open>SyncClient.getInstance()\<close>
  yields no instance, otherwise a function that tells, for a start command, the exception
  it raises if any. A command that is accepted is recorded in the state.
\<close>

type_synonym syncClient = "(client_call \<Rightarrow> exn option) option"

definition js_truthy_number :: "nat option \<Rightarrow> bool" where
  "js_truthy_number n = (case n of None \<Rightarrow> False | Some k \<Rightarrow> k \<noteq> 0)"

text \<open>
  The loop over the connections inside the \<^verbatim>\<open>try\<close> block. It yields the exception that
  left the loop, if any, and the state reached: what was written before the exception
  stays written.
\<close>

fun start_connections ::
  "syncClient \<Rightarrow> connection list \<Rightarrow> config option \<Rightarrow> string \<Rightarrow> incomingSyncConfig \<Rightarrow> bool \<Rightarrow>
   world \<Rightarrow> exn option \<times> world" where
  "start_connections client [] syncConfig syncName sync debug w = (None, w)"
| "start_connections client (connection # rest) syncConfig syncName sync debug w =
     (let (createdSync, w1) = createSync (row_id connection) syncName w in
      case client of
        None \<Rightarrow> start_connections client rest syncConfig syncName sync debug w1
      | Some startContinuous \<Rightarrow>
          (let call = \<lparr>cc_connection = connection, cc_sync = createdSync,
                       cc_config = syncConfig, cc_syncName = syncName,
                       cc_returns = models sync, cc_debug = debug\<rparr>
           in case startContinuous call of
                Some e \<Rightarrow> (Some e, w1)
              | None \<Rightarrow>
                  start_connections client rest syncConfig syncName sync debug
                    (w1\<lparr>client_calls := client_calls w1 @ [call]\<rparr>)))"

definition create ::
  "encryptionManager \<Rightarrow> syncClient \<Rightarrow> connection list \<Rightarrow> string \<Rightarrow> string \<Rightarrow> nat \<Rightarrow>
   incomingSyncConfig \<Rightarrow> bool \<Rightarrow> nat option \<Rightarrow> world \<Rightarrow> bool \<times> world" where
  "create mgr client connections syncName providerConfigKey environmentId sync debug
       activityLogId w =
     (let (syncConfig, w1) = getProviderConfig mgr providerConfigKey environmentId w;
          w2 = (if debug \<and> js_truthy_number activityLogId
                then createActivityLogMessage
                       \<lparr>level = Debug, activity_log_id = activityLogId,
                        content = Beginning syncName (length connections)\<rparr> w1
                else w1)
      in case start_connections client connections syncConfig syncName sync debug w2 of
           (None, w3) \<Rightarrow>
             (True,
              if debug \<and> js_truthy_number activityLogId
              then createActivityLogMessage
                     \<lparr>level = Debug, activity_log_id = activityLogId,
                      content = Finished syncName (length connections)\<rparr> w3
              else w3)
         | (Some e, w3) \<Rightarrow>
             (False,
              createActivityLogMessage
                \<lparr>level = Error, activity_log_id = activityLogId,
                 content = ErrorStarting syncName (length connections) e\<rparr> w3))"

record createSyncArgs =
  args_connections :: "connection list"
  args_providerConfigKey :: string
  args_environmentId :: nat
  args_sync :: incomingSyncConfig
  args_syncName :: string

definition create_request ::
  "encryptionManager \<Rightarrow> syncClient \<Rightarrow> bool \<Rightarrow> nat option \<Rightarrow> createSyncArgs \<Rightarrow> world \<Rightarrow>
   bool \<times> world" where
  "create_request mgr client debug activityLogId syncToCreate w =
     create mgr client (args_connections syncToCreate) (args_syncName syncToCreate)
       (args_providerConfigKey syncToCreate) (args_environmentId syncToCreate)
       (args_sync syncToCreate) debug activityLogId w"

fun createSyncs_loop ::
  "encryptionManager \<Rightarrow> syncClient \<Rightarrow> createSyncArgs list \<Rightarrow> bool \<Rightarrow> nat option \<Rightarrow> bool \<Rightarrow>
   world \<Rightarrow> bool \<times> world" where
  "createSyncs_loop mgr client [] debug activityLogId success w = (success, w)"
| "createSyncs_loop mgr client (syncToCreate # rest) debug activityLogId success w =
     (let (result, w1) = create_request mgr client debug activityLogId syncToCreate w
      in createSyncs_loop mgr client rest debug activityLogId
           (if \<not> result then False else success) w1)"

definition createSyncs ::
  "encryptionManager \<Rightarrow> syncClient \<Rightarrow> createSyncArgs list \<Rightarrow> bool \<Rightarrow> nat option \<Rightarrow> world \<Rightarrow>
   bool \<times> world" where
  "createSyncs mgr client syncArgs debug activityLogId w =
     createSyncs_loop mgr client syncArgs debug activityLogId True w"

section \<open>Grouping and sorting the endpoints (Show.tsx)\<close>

record endpoint =
  verb :: string
  path :: string

record flowWithEndpoint = flow +
  endpoint :: endpoint

record endpointGroup =
  group_name :: string
  group_flows :: "flowWithEndpoint list"

datatype js_error = TypeError

definition allowedGroup :: "string list" where
  "allowedGroup = [''customers'', ''invoices'', ''payments'', ''tickets'']"

text \<open>\<^verbatim>\<open>s.split('/')\<close>: the pieces between the separators; never an empty array.\<close>

fun split_slash :: "string \<Rightarrow> string list" where
  "split_slash [] = [[]]"
| "split_slash (c # cs) =
     (if c = CHR ''/'' then [] # split_slash cs
      else case split_slash cs of
             [] \<Rightarrow> [[c]]
           | piece # pieces \<Rightarrow> (c # piece) # pieces)"

definition js_nth :: "string list \<Rightarrow> nat \<Rightarrow> js_value" where
  "js_nth xs i = (if i < length xs then JString (xs ! i) else JUndefined)"

text \<open>
  \<^verbatim>\<open>tmp\<close> is an object used as a dictionary: the list of its entries in insertion
  order, which is the order \<^verbatim>\<open>Object.entries(tmp)\<close> yields.
\<close>

definition push_group ::
  "string \<Rightarrow> flowWithEndpoint \<Rightarrow> (string \<times> flowWithEndpoint list) list \<Rightarrow>
   (string \<times> flowWithEndpoint list) list" where
  "push_group groupName e tmp =
     (case map_of tmp groupName of
        None \<Rightarrow> tmp @ [(groupName, [e])]
      | Some _ \<Rightarrow> map (\<lambda>(n, group). if n = groupName then (n, group @ [e]) else (n, group)) tmp)"

text \<open>
  The body of the inner loop. \<^verbatim>\<open>Object.entries(endpoint)[0]\<close> is undefined for an
  object with no key, and reading its element 1 raises a TypeError.
\<close>

definition group_endpoint ::
  "flow \<Rightarrow> endpoint_obj \<Rightarrow> (string \<times> flowWithEndpoint list) list \<Rightarrow>
   js_error + (string \<times> flowWithEndpoint list) list" where
  "group_endpoint fl endpointObj tmp =
     (case endpointObj of
        [] \<Rightarrow> Inl TypeError
      | entries # _ \<Rightarrow>
          (let paths = split_slash (snd entries);
               p = js_nth paths 1
           in if \<not> truthy p then Inr tmp
              else
                (let groupName = (if toPropertyKey p \<in> set allowedGroup
                                  then toPropertyKey p else ''others'')
                 in Inr (push_group groupName
                           (flow.extend fl
                              (flowWithEndpoint.fields
                                 \<lparr>verb = fst entries, path = snd entries\<rparr>))
                           tmp))))"

fun group_endpoints ::
  "flow \<Rightarrow> endpoint_obj list \<Rightarrow> (string \<times> flowWithEndpoint list) list \<Rightarrow>
   js_error + (string \<times> flowWithEndpoint list) list" where
  "group_endpoints fl [] tmp = Inr tmp"
| "group_endpoints fl (endpointObj # rest) tmp =
     (case group_endpoint fl endpointObj tmp of
        Inl err \<Rightarrow> Inl err
      | Inr tmp1 \<Rightarrow> group_endpoints fl rest tmp1)"

fun group_flows_loop ::
  "flow list \<Rightarrow> (string \<times> flowWithEndpoint list) list \<Rightarrow>
   js_error + (string \<times> flowWithEndpoint list) list" where
  "group_flows_loop [] tmp = Inr tmp"
| "group_flows_loop (fl # rest) tmp =
     (case group_endpoints fl (endpoints fl) tmp of
        Inl err \<Rightarrow> Inl err
      | Inr tmp1 \<Rightarrow> group_flows_loop rest tmp1)"

definition count_slashes :: "string \<Rightarrow> nat" where
  "count_slashes s = length (filter (\<lambda>c. c = CHR ''/'') s)"

text \<open>The comparator handed to \<^verbatim>\<open>sort\<close>; strings compare lexicographically.\<close>

definition compareFlows :: "flowWithEndpoint \<Rightarrow> flowWithEndpoint \<Rightarrow> int" where
  "compareFlows a b =
     (let lenA = count_slashes (path (endpoint a));
          lenB = count_slashes (path (endpoint b))
      in if lenA > lenB then 1
         else if lenA < lenB then - 1
         else if verb (endpoint a) = ''GET'' \<and> verb (endpoint b) \<noteq> ''GET'' then - 1
         else if verb (endpoint a) = ''POST'' \<and> verb (endpoint b) = ''PUT'' then - 1
         else if verb (endpoint a) = ''PUT'' \<and> verb (endpoint b) = ''PATCH'' then - 1
         else if verb (endpoint a) = ''PATCH'' \<and> verb (endpoint b) = ''DELETE'' then - 1
         else if path (endpoint a) > path (endpoint b) then 1 else - 1)"

text \<open>
  \<^verbatim>\<open>Array.prototype.sort\<close> belongs to the JavaScript engine, not to the sources: it is
  the parameter \<open>engine_sort\<close>, which receives the comparator and the array. With no data the
  presentation is empty.
\<close>

definition byGroup ::
  "((flowWithEndpoint \<Rightarrow> flowWithEndpoint \<Rightarrow> int) \<Rightarrow> flowWithEndpoint list \<Rightarrow> flowWithEndpoint list) \<Rightarrow>
   flow list option \<Rightarrow> js_error + endpointGroup list" where
  "byGroup engine_sort data =
     (case data of
        None \<Rightarrow> Inr []
      | Some flows \<Rightarrow>
          (case group_flows_loop flows [] of
             Inl err \<Rightarrow> Inl err
           | Inr tmp \<Rightarrow>
               Inr (map (\<lambda>(n, group). \<lparr>group_name = n, group_flows = engine_sort compareFlows group\<rparr>)
                      tmp)))"

text \<open>
  One engine, for the concrete instances: straight insertion, which moves an element left
  past every element the comparator puts after it.
\<close>

fun insert_from_right :: "('a \<Rightarrow> 'a \<Rightarrow> int) \<Rightarrow> 'a \<Rightarrow> 'a list \<Rightarrow> 'a list" where
  "insert_from_right cmp element [] = [element]"
| "insert_from_right cmp element (t # ts) =
     (if cmp t element > 0 then t # insert_from_right cmp element ts else element # t # ts)"

definition insertionSort :: "('a \<Rightarrow> 'a \<Rightarrow> int) \<Rightarrow> 'a list \<Rightarrow> 'a list" where
  "insertionSort cmp xs = rev (foldl (\<lambda>sorted_rev x. insert_from_right cmp x sorted_rev) [] xs)"

section \<open>The invariant of the grouping loop\<close>

text \<open>
  Every entry of a group carries an endpoint whose path has a non-empty segment after its
  first separator, and that endpoint is the first entry of an endpoint object of the flow
  the entry was made from.
\<close>

definition entry_ok :: "flowWithEndpoint \<Rightarrow> bool" where
  "entry_ok e \<longleftrightarrow> truthy (js_nth (split_slash (path (endpoint e))) 1) \<and>
     (\<exists>ep \<in> set (endpoints (flow.truncate e)). \<exists>rest.
         ep = (verb (endpoint e), path (endpoint e)) # rest)"

definition tmp_ok :: "(string \<times> flowWithEndpoint list) list \<Rightarrow> bool" where
  "tmp_ok tmp \<longleftrightarrow> (\<forall>n g. (n, g) \<in> set tmp \<longrightarrow> (\<forall>e \<in> set g. entry_ok e))"

section \<open>Concrete data for the instances\<close>

abbreviation contacts_sync :: flow where
  "contacts_sync \<equiv> \<lparr>name = ''contacts'', ftype = SyncType,
      endpoints = [[(''GET'', ''/contacts'')]], returns = [''Contact''],
      enabled = True, fid = Some 1\<rparr>"

abbreviation create_contact_action :: flow where
  "create_contact_action \<equiv> \<lparr>name = ''create-contact'', ftype = ActionType,
      endpoints = [[(''POST'', ''/contacts'')]], returns = [''Contact''],
      enabled = False, fid = None\<rparr>"

abbreviation list_contacts_action :: flow where
  "list_contacts_action \<equiv> \<lparr>name = ''list-contacts'', ftype = ActionType,
      endpoints = [[(''GET'', ''/contacts'')]], returns = [''ContactList''],
      enabled = False, fid = None\<rparr>"

abbreviation tickets_sync :: flow where
  "tickets_sync \<equiv> \<lparr>name = ''tickets'', ftype = SyncType,
      endpoints = [[(''GET'', ''/tickets'')]], returns = [''Ticket''],
      enabled = False, fid = None\<rparr>"

abbreviation contacts_template :: flow where
  "contacts_template \<equiv> \<lparr>name = ''contacts'', ftype = SyncType,
      endpoints = [[(''GET'', ''/contacts'')]], returns = [''Contact''],
      enabled = False, fid = None\<rparr>"

abbreviation empty_world :: world where
  "empty_world \<equiv> \<lparr>nango_configs = [], nango_connections = [], nango_syncs = [],
      nango_schedules = [], nango_sync_configs = [], sync_files = [], activity_log = [],
      client_calls = [], encrypt_calls = [], decrypt_calls = [], next_id = 10\<rparr>"

abbreviation hubspot_config :: config where
  "hubspot_config \<equiv> \<lparr>row_id = Some 1, environment_id = 1, deleted = False, deleted_at = None,
      unique_key = ''crm'', provider = ''hubspot'', oauth_client_secret = Some ''s3cret'',
      oauth_client_secret_iv = None, oauth_client_secret_tag = None\<rparr>"

abbreviation salesforce_config :: config where
  "salesforce_config \<equiv> \<lparr>row_id = Some 2, environment_id = 2, deleted = False, deleted_at = None,
      unique_key = ''crm'', provider = ''salesforce'', oauth_client_secret = None,
      oauth_client_secret_iv = None, oauth_client_secret_tag = None\<rparr>"

abbreviation demo_manager :: encryptionManager where
  "demo_manager \<equiv>
     \<lparr>encryptProviderConfig =
        (\<lambda>c. c\<lparr>oauth_client_secret := map_option rev (oauth_client_secret c),
                oauth_client_secret_iv := Some ''iv'', oauth_client_secret_tag := Some ''tag''\<rparr>),
      decryptProviderConfig =
        (\<lambda>c. Some (c\<lparr>oauth_client_secret := map_option rev (oauth_client_secret c),
                oauth_client_secret_iv := None, oauth_client_secret_tag := None\<rparr>))\<rparr>"


abbreviation conn :: "nat \<Rightarrow> string \<Rightarrow> connection" where
  "conn i ext \<equiv> \<lparr>row_id = Some i, environment_id = 1, deleted = False, deleted_at = None,
      provider_config_key = ''crm'', connection_id = ext\<rparr>"

abbreviation failing_on_b :: "client_call \<Rightarrow> exn option" where
  "failing_on_b \<equiv> (\<lambda>call. if connection_id (cc_connection call) = ''b''
                            then Some (Exn ''start failed'' ''Error'') else None)"

abbreviation request :: "connection list \<Rightarrow> string \<Rightarrow> createSyncArgs" where
  "request cs n \<equiv> \<lparr>args_connections = cs, args_providerConfigKey = ''crm'',
      args_environmentId = 1, args_sync = \<lparr>models = [''Contact''], runs = ''every hour''\<rparr>,
      args_syncName = n\<rparr>"

abbreviation customers_entry :: "string \<Rightarrow> flowWithEndpoint" where
  "customers_entry v \<equiv> \<lparr>name = ''customers'', ftype = ActionType,
      endpoints = [[(''GET'', ''/customers'')], [(''POST'', ''/customers'')]],
      returns = [''Customer''], enabled = True, fid = Some 3,
      endpoint = \<lparr>verb = v, path = ''/customers''\<rparr>\<rparr>"

abbreviation root_flow :: flow where
  "root_flow \<equiv> \<lparr>name = ''ping'', ftype = ActionType, endpoints = [[(''GET'', ''/'')]],
      returns = [], enabled = True, fid = Some 4\<rparr>"

section \<open>The flow catalog: suppression of templates\<close>

text \<open>
  The endpoint test never succeeds: \<^verbatim>\<open>Object.entries(endpointObjA)\<close> is used without
  taking its first element, so \<^verbatim>\<open>endpointA[1]\<close> is an array or undefined, and a value
  read from the other endpoint object is never identical to either while being truthy.
\<close>

lemma strict_equals_JArray_right: "strict_equals v (JArray xs) = False"
  by (cases v) simp_all

lemma js_index_object_entries:
  "js_index (object_entries obj) i = JUndefined \<or> (\<exists>xs. js_index (object_entries obj) i = JArray xs)"
  by (auto simp: js_index_def object_entries_def split: prod.splits)

lemma endpoint_test_never:
  "\<not> (truthy v \<and> strict_equals v (js_index (object_entries obj) 1))"
  using js_index_object_entries [of obj 1] by (cases v) (auto simp: strict_equals_JArray_right)

lemma containsSameEndpoint_never: "containsSameEndpoint flowA flowB = False"
  unfolding containsSameEndpoint_def Let_def list_ex_iff
  using endpoint_test_never by blast

lemma pushTemplateFlows_filter:
  "pushTemplateFlows ts db acc = acc @ filter (\<lambda>t. \<not> hasSimilarFlow t db) ts"
  by (induction ts arbitrary: acc) auto

lemma resolveFlows_filter:
  "resolveFlows db ts = db @ filter (\<lambda>t. \<not> hasSimilarFlow t db) ts"
  by (simp add: resolveFlows_def pushTemplateFlows_filter)

lemma hasSimilarFlow_iff:
  "hasSimilarFlow t db \<longleftrightarrow>
     (\<exists>I \<in> set db. (ftype I = ftype t \<and> name I = name t)
         \<or> (ftype I = SyncType \<and> truthy (returns_find I t)))"
  by (induction db) (auto simp: containsSameEndpoint_never)

lemma find_member_cases:
  "(find P xs = None \<and> (\<forall>x \<in> set xs. \<not> P x)) \<or> (\<exists>y. find P xs = Some y \<and> y \<in> set xs \<and> P y)"
  by (induction xs) auto

lemma truthy_returns_find:
  assumes "[] \<notin> set (returns I)"
  shows "truthy (returns_find I t) \<longleftrightarrow> set (returns I) \<inter> set (returns t) \<noteq> {}"
  using assms find_member_cases [of "\<lambda>model. model \<in> set (returns t)" "returns I"]
  by (auto simp: returns_find_def)

lemma count_list_distinct: "distinct xs \<Longrightarrow> x \<in> set xs \<Longrightarrow> count_list xs x = 1"
  by (induction xs) auto

text \<open>
  The read path answers with the catalog computed from the installed flows and the
  templates of the provider, or with \<open>not_found\<close> when the lookup of the provider
  configuration finds nothing.
\<close>

lemma getIntegrationFlows_catalog:
  "fst (getProviderConfig mgr key env w) = Some integration \<Longrightarrow>
   fst (getIntegrationFlows False (Some key) env mgr availablePublicFlows installed w) =
     Status200 (resolveFlows (flows_of (installed env key))
        (flows_of (find (\<lambda>f. flows_providerConfigKey f = provider integration)
                     availablePublicFlows)))"
  "fst (getProviderConfig mgr key env w) = None \<Longrightarrow>
   fst (getIntegrationFlows False (Some key) env mgr availablePublicFlows installed w) =
     Status404 ''not_found''"
  by (simp_all add: getIntegrationFlows_def Let_def split_def split: option.splits prod.splits)

text \<open>
  C1, as the specification states it, fails: a template action that returns the model of an
  installed sync is not equivalent to it under the three criteria (the types differ, the
  template is not a sync, no endpoint is shared), yet the read path suppresses it.
\<close>

theorem template_action_suppressed_by_sync_returns: 
  "\<not> list_ex (spec_equivalent create_contact_action) [contacts_sync] \<and>
   create_contact_action \<notin> set (resolveFlows [contacts_sync] [create_contact_action]) \<and>
   resolveFlows [contacts_sync] [create_contact_action] \<noteq> spec_catalog [contacts_sync] [create_contact_action]"
  by (simp add: spec_equivalent_def shares_endpoint_def resolveFlows_def returns_find_def spec_catalog_def)

text \<open>
  C1, amended. When no installed flow returns an empty model name, the catalog is the
  installed flows followed by templates kept in their order; a template is suppressed when
  an installed flow has its type and name, or when an installed flow is a sync (whatever the
  type of the template) and returns a model the template returns; a template that matches
  no installed flow on type and name, on the models of an installed sync, or on a shared
  endpoint pair is kept. Nothing is said of a template that only shares an endpoint.
\<close>

theorem resolveFlows_catalog:
  assumes "\<forall>I \<in> set dbFlows. [] \<notin> set (returns I)"
  shows "\<exists>kept. resolveFlows dbFlows templateFlows = dbFlows @ kept \<and> subseq kept templateFlows \<and>
     (\<forall>T \<in> set templateFlows.
        (\<exists>I \<in> set dbFlows. (ftype I = ftype T \<and> name I = name T) \<or>
            (ftype I = SyncType \<and> set (returns I) \<inter> set (returns T) \<noteq> {})) \<longrightarrow> T \<notin> set kept) \<and>
     (\<forall>T \<in> set templateFlows.
        \<not> (\<exists>I \<in> set dbFlows. (ftype I = ftype T \<and> name I = name T) \<or>
            (ftype I = SyncType \<and> set (returns I) \<inter> set (returns T) \<noteq> {}) \<or>
            shares_endpoint T I) \<longrightarrow> T \<in> set kept)"
proof -
  let ?kept = "filter (\<lambda>t. \<not> hasSimilarFlow t dbFlows) templateFlows"
  have sim: "hasSimilarFlow T dbFlows \<longleftrightarrow>
     (\<exists>I \<in> set dbFlows. (ftype I = ftype T \<and> name I = name T) \<or>
        (ftype I = SyncType \<and> set (returns I) \<inter> set (returns T) \<noteq> {}))" for T
    using assms by (auto simp: hasSimilarFlow_iff truthy_returns_find)
  have "resolveFlows dbFlows templateFlows = dbFlows @ ?kept"
    by (rule resolveFlows_filter)
  moreover have "subseq ?kept templateFlows" by simp
  moreover have "\<forall>T \<in> set templateFlows.
        (\<exists>I \<in> set dbFlows. (ftype I = ftype T \<and> name I = name T) \<or>
            (ftype I = SyncType \<and> set (returns I) \<inter> set (returns T) \<noteq> {})) \<longrightarrow> T \<notin> set ?kept"
    using sim by simp
  moreover have "\<forall>T \<in> set templateFlows.
        \<not> (\<exists>I \<in> set dbFlows. (ftype I = ftype T \<and> name I = name T) \<or>
            (ftype I = SyncType \<and> set (returns I) \<inter> set (returns T) \<noteq> {}) \<or>
            shares_endpoint T I) \<longrightarrow> T \<in> set ?kept"
    using sim by auto
  ultimately show ?thesis by blast
qed

text \<open>An instance: one template suppressed through the models, one kept.\<close>

theorem resolveFlows_catalog_witness:
  "[] \<notin> set (returns contacts_sync) \<and>
   (\<exists>kept. resolveFlows [contacts_sync] [create_contact_action, tickets_sync] = [contacts_sync] @ kept \<and>
      create_contact_action \<notin> set kept \<and> tickets_sync \<in> set kept)"
  using resolveFlows_catalog [of "[contacts_sync]" "[create_contact_action, tickets_sync]"]
  by (auto simp: shares_endpoint_def)

text \<open>
  What the amended statement leaves open: a template that shares the endpoint
  GET /contacts with an installed flow, and nothing else, is equivalent to it in the
  words of the specification, and the read path keeps it all the same.
\<close>

lemma template_sharing_endpoint_is_kept:
  "list_ex (spec_equivalent list_contacts_action) [contacts_sync] \<and>
   resolveFlows [contacts_sync] [list_contacts_action] = [contacts_sync, list_contacts_action]"
  by (simp add: spec_equivalent_def shares_endpoint_def resolveFlows_def returns_find_def
        containsSameEndpoint_never)

text \<open>
  C5: every installed flow appears exactly once in the catalog, whatever the templates:
  the installed flows are copied, and a template equal to an installed flow has its type
  and name, so it is suppressed.
\<close>

theorem installed_flow_exactly_once:
  assumes "distinct dbFlows" and "I \<in> set dbFlows"
  shows "count_list (resolveFlows dbFlows templateFlows) I = 1"
proof -
  have "hasSimilarFlow I dbFlows" using assms(2) by (auto simp: hasSimilarFlow_iff)
  then have "count_list (filter (\<lambda>t. \<not> hasSimilarFlow t dbFlows) templateFlows) I = 0"
    by (simp add: count_list_0_iff)
  moreover have "count_list dbFlows I = 1" using assms by (simp add: count_list_distinct)
  ultimately show ?thesis by (simp add: resolveFlows_filter)
qed

theorem installed_flow_exactly_once_witness:
  "distinct [contacts_sync] \<and> contacts_sync \<in> set [contacts_sync] \<and>
   count_list (resolveFlows [contacts_sync] [contacts_template, tickets_sync]) contacts_sync = 1"
  using installed_flow_exactly_once [of "[contacts_sync]" contacts_sync "[contacts_template, tickets_sync]"]
  by simp

section \<open>The registry: lookups, creation, deletion, encryption\<close>

lemma filter_first_cases:
  "(filter P xs = [] \<and> (\<forall>x \<in> set xs. \<not> P x)) \<or> (\<exists>y ys. filter P xs = y # ys \<and> y \<in> set xs \<and> P y)"
  by (induction xs) auto

lemma toLowerCase_sample: "toLowerCase ''aB3_'' = ''ab3_''"
  by code_simp

lemma steps_keep_connections:
  "nango_connections (deleteSyncConfigByConfigId i
      ((if c then deleteSyncFilesForConfig i env else (\<lambda>x. x)) (deleteSyncsByProviderConfig env key w)))
   = nango_connections w"
  "nango_configs (deleteSyncConfigByConfigId i
      ((if c then deleteSyncFilesForConfig i env else (\<lambda>x. x)) (deleteSyncsByProviderConfig env key w)))
   = nango_configs w"
  by (simp_all add: deleteSyncConfigByConfigId_def deleteSyncFilesForConfig_def
        deleteSyncsByProviderConfig_def Let_def)

lemma map_if_none: "(\<forall>x \<in> set xs. \<not> P x) \<Longrightarrow> map (\<lambda>x. if P x then f x else x) xs = xs"
  by (induction xs) auto

lemma decrypt_each_calls:
  "decrypt_calls (snd (decrypt_each mgr cs w)) = decrypt_calls w @ cs \<and>
   encrypt_calls (snd (decrypt_each mgr cs w)) = encrypt_calls w \<and>
   nango_configs (snd (decrypt_each mgr cs w)) = nango_configs w"
  by (induction cs arbitrary: w)
     (simp_all add: call_decryptProviderConfig_def Let_def split_def)



lemma set_defined_columns_keeps_secret:
  "oauth_client_secret obj = None \<Longrightarrow>
   oauth_client_secret (set_defined_columns obj r) = oauth_client_secret r"
  by (simp add: set_defined_columns_def)

lemma listProviderConfigs_calls:
  "decrypt_calls (snd (listProviderConfigs mgr e w)) =
      decrypt_calls w @ filter (\<lambda>r. environment_id r = e \<and> \<not> deleted r) (nango_configs w)"
  by (simp add: listProviderConfigs_def decrypt_each_calls)

lemma getProviderConfig_effect:
  "decrypt_calls (snd (getProviderConfig mgr k e w)) =
      decrypt_calls w @
        (case find (\<lambda>r. unique_key r = k \<and> environment_id r = e \<and> \<not> deleted r) (nango_configs w) of
           None \<Rightarrow> [] | Some r \<Rightarrow> [r]) \<and>
   fst (getProviderConfig mgr k e w) =
        (case find (\<lambda>r. unique_key r = k \<and> environment_id r = e \<and> \<not> deleted r) (nango_configs w) of
           None \<Rightarrow> None | Some r \<Rightarrow> decryptProviderConfig mgr r) \<and>
   encrypt_calls (snd (getProviderConfig mgr k e w)) = encrypt_calls w \<and>
   nango_configs (snd (getProviderConfig mgr k e w)) = nango_configs w"
  by (auto simp: getProviderConfig_def call_decryptProviderConfig_def split: option.splits)

text \<open>
  C9, as stated, fails when two environments hold the same key for different providers:
  the lookup returns the provider of the first non-deleted row with the key, which is not
  the provider of the row of the second environment.
\<close>

theorem getProviderName_other_environment_row:
  "salesforce_config \<in> set (nango_configs (empty_world\<lparr>nango_configs := [hubspot_config, salesforce_config]\<rparr>)) \<and>
   \<not> deleted salesforce_config \<and> unique_key salesforce_config = ''crm'' \<and>
   getProviderName ''crm'' (empty_world\<lparr>nango_configs := [hubspot_config, salesforce_config]\<rparr>)
     \<noteq> Some (provider salesforce_config)"
  by (simp add: getProviderName_def)

text \<open>
  C9, amended. getProviderName looks a configuration up by unique_key alone: for a key
  that exists as a non-deleted row in any environment it returns the provider of the
  first non-deleted row with that key, over all environments, which is the provider of the
  given row whenever all non-deleted rows with that key name the same provider; and the
  result does not change when the environments of the rows change.
\<close>

theorem getProviderName_ignores_environment:
  assumes "r \<in> set (nango_configs w)" and "\<not> deleted r" and "unique_key r = k"
  shows "getProviderName k w =
           Some (provider (hd (filter (\<lambda>x. unique_key x = k \<and> \<not> deleted x) (nango_configs w)))) \<and>
         ((\<forall>r' \<in> set (nango_configs w). \<not> deleted r' \<and> unique_key r' = k \<longrightarrow> provider r' = provider r)
            \<longrightarrow> getProviderName k w = Some (provider r)) \<and>
         getProviderName k (w\<lparr>nango_configs := map (\<lambda>x. x\<lparr>environment_id := e x\<rparr>) (nango_configs w)\<rparr>)
           = getProviderName k w"
proof -
  let ?P = "\<lambda>x. unique_key x = k \<and> \<not> deleted x"
  from filter_first_cases [of ?P "nango_configs w"] assms
  obtain y ys where y: "filter ?P (nango_configs w) = y # ys" "y \<in> set (nango_configs w)" "?P y"
    by blast
  then have g: "getProviderName k w = Some (provider y)" by (simp add: getProviderName_def)
  have "filter ?P (map (\<lambda>x. x\<lparr>environment_id := e x\<rparr>) (nango_configs w))
        = map (\<lambda>x. x\<lparr>environment_id := e x\<rparr>) (filter ?P (nango_configs w))"
    by (induction "nango_configs w") (auto simp: filter_map o_def)
  then have "getProviderName k (w\<lparr>nango_configs := map (\<lambda>x. x\<lparr>environment_id := e x\<rparr>) (nango_configs w)\<rparr>)
           = getProviderName k w"
    using y(1) by (simp add: getProviderName_def)
  with g y show ?thesis by auto
qed

text \<open>
  An instance: the key is held by hubspot in environment 1 and by salesforce in
  environment 2, in this order; the answer is hubspot, the first row.
\<close>

theorem getProviderName_ignores_environment_witness:
  "hubspot_config \<in> set (nango_configs (empty_world\<lparr>nango_configs := [hubspot_config, salesforce_config]\<rparr>)) \<and>
   \<not> deleted hubspot_config \<and> unique_key hubspot_config = ''crm'' \<and>
   getProviderName ''crm'' (empty_world\<lparr>nango_configs := [hubspot_config, salesforce_config]\<rparr>)
     = Some ''hubspot'' \<and>
   getProviderName ''crm'' (empty_world\<lparr>nango_configs := [salesforce_config, hubspot_config]\<rparr>)
     = Some ''salesforce''"
  using getProviderName_ignores_environment
    [of hubspot_config "empty_world\<lparr>nango_configs := [hubspot_config, salesforce_config]\<rparr>" "''crm''"]
    getProviderName_ignores_environment
    [of hubspot_config "empty_world\<lparr>nango_configs := [salesforce_config, hubspot_config]\<rparr>" "''crm''"]
  by simp

text \<open>
  C8: creating an empty configuration for provider P in environment E stores a row whose
  unique_key is P when no non-deleted row of provider P exists in E, and P followed by a
  hyphen and the lower-cased random identifier otherwise.
\<close>

theorem createEmptyProviderConfig_unique_key:
  assumes "createEmptyProviderConfig nanoid4 mgr P E w = (res, w')"
  shows "\<exists>created. res = Inr created \<and> nango_configs w' = nango_configs w @ [created] \<and>
           provider created = P \<and> environment_id created = E \<and> \<not> deleted created \<and>
           ((\<forall>r \<in> set (nango_configs w). \<not> (provider r = P \<and> environment_id r = E \<and> \<not> deleted r))
               \<longrightarrow> unique_key created = P) \<and>
           ((\<exists>r \<in> set (nango_configs w). provider r = P \<and> environment_id r = E \<and> \<not> deleted r)
               \<longrightarrow> unique_key created = P @ ''-'' @ toLowerCase nanoid4)"
proof -
  have cnt: "length (filter Q xs) = 0 \<longleftrightarrow> (\<forall>x \<in> set xs. \<not> Q x)" for Q :: "config \<Rightarrow> bool" and xs
    by (simp add: filter_empty_conv)
  show ?thesis
    using assms
    by (auto simp: createEmptyProviderConfig_def createProviderConfig_def Let_def cnt
          filter_empty_conv js_of_option_def split: prod.splits)
qed

theorem createEmptyProviderConfig_unique_key_witness:
  "createEmptyProviderConfig ''aB3_'' demo_manager ''hubspot'' 1 (empty_world\<lparr>nango_configs := [hubspot_config]\<rparr>) =
     (Inr \<lparr>row_id = Some 10, environment_id = 1, deleted = False, deleted_at = None,
           unique_key = ''hubspot-ab3_'', provider = ''hubspot'', oauth_client_secret = None,
           oauth_client_secret_iv = None, oauth_client_secret_tag = None\<rparr>, 
      empty_world\<lparr>nango_configs := [hubspot_config, \<lparr>row_id = Some 10, environment_id = 1, deleted = False, deleted_at = None,
           unique_key = ''hubspot-ab3_'', provider = ''hubspot'', oauth_client_secret = None,
           oauth_client_secret_iv = None, oauth_client_secret_tag = None\<rparr>], next_id := 11\<rparr>) \<and>
   unique_key \<lparr>row_id = Some 10, environment_id = 1, deleted = False, deleted_at = None,
           unique_key = ''hubspot-ab3_'', provider = ''hubspot'', oauth_client_secret = None,
           oauth_client_secret_iv = None, oauth_client_secret_tag = None\<rparr> = ''hubspot-'' @ toLowerCase ''aB3_''"
proof -
  have run: "createEmptyProviderConfig ''aB3_'' demo_manager ''hubspot'' 1 (empty_world\<lparr>nango_configs := [hubspot_config]\<rparr>) =
     (Inr \<lparr>row_id = Some 10, environment_id = 1, deleted = False, deleted_at = None,
           unique_key = ''hubspot-ab3_'', provider = ''hubspot'', oauth_client_secret = None,
           oauth_client_secret_iv = None, oauth_client_secret_tag = None\<rparr>, 
      empty_world\<lparr>nango_configs := [hubspot_config, \<lparr>row_id = Some 10, environment_id = 1, deleted = False, deleted_at = None,
           unique_key = ''hubspot-ab3_'', provider = ''hubspot'', oauth_client_secret = None,
           oauth_client_secret_iv = None, oauth_client_secret_tag = None\<rparr>], next_id := 11\<rparr>)"
    by (simp add: createEmptyProviderConfig_def createProviderConfig_def Let_def js_of_option_def toLowerCase_sample)
  from createEmptyProviderConfig_unique_key [OF run] show ?thesis using run by (simp add: toLowerCase_sample)
qed

text \<open>
  C3: when no non-deleted configuration row has the identifier, the update reports zero
  rows, the deletion returns false and leaves the connection rows (and the configuration
  rows) as they were; the connection rows change only when the deletion returns true,
  that is after a configuration row was marked deleted.
\<close>

theorem deleteProviderConfig_commit_point:
  assumes "deleteProviderConfig isCloud date1 date2 i env key w = (ok, w')"
  shows "((\<forall>r \<in> set (nango_configs w). \<not> (row_id r = Some i \<and> \<not> deleted r)) \<longrightarrow>
            \<not> ok \<and> nango_connections w' = nango_connections w \<and> nango_configs w' = nango_configs w) \<and>
         (nango_connections w' \<noteq> nango_connections w \<longrightarrow>
            ok \<and> (\<exists>r \<in> set (nango_configs w). row_id r = Some i \<and> \<not> deleted r) \<and>
            (\<forall>r \<in> set (nango_configs w'). row_id r = Some i \<longrightarrow> deleted r))"
proof -
  let ?hit = "\<lambda>r::config. row_id r = Some i \<and> \<not> deleted r"
  let ?w3 = "deleteSyncConfigByConfigId i
      ((if isCloud then deleteSyncFilesForConfig i env else (\<lambda>x. x)) (deleteSyncsByProviderConfig env key w))"
  have w3: "nango_connections ?w3 = nango_connections w" "nango_configs ?w3 = nango_configs w"
    by (rule steps_keep_connections)+
  have cnt: "length (filter ?hit (nango_configs w)) = 0 \<longleftrightarrow> (\<forall>x \<in> set (nango_configs w). \<not> ?hit x)"
    by (simp add: filter_empty_conv)
  have unfold: "deleteProviderConfig isCloud date1 date2 i env key w =
     (let w4 = ?w3\<lparr>nango_configs :=
                    map (\<lambda>r. if ?hit r then r\<lparr>deleted := True, deleted_at := Some date1\<rparr> else r)
                      (nango_configs w)\<rparr>
      in if length (filter ?hit (nango_configs w)) \<le> 0 then (False, w4)
         else (True,
            w4\<lparr>nango_connections :=
                 map (\<lambda>c. if provider_config_key c = key \<and> environment_id c = env \<and> \<not> deleted c
                           then c\<lparr>deleted := True, deleted_at := Some date2\<rparr> else c)
                   (nango_connections w)\<rparr>))"
    unfolding deleteProviderConfig_def Let_def using w3 by (cases isCloud) simp_all
  show ?thesis
  proof (cases "\<forall>r \<in> set (nango_configs w). \<not> ?hit r")
    case True
    then have "length (filter ?hit (nango_configs w)) \<le> 0" using cnt by simp
    moreover have "map (\<lambda>r. if ?hit r then r\<lparr>deleted := True, deleted_at := Some date1\<rparr> else r) (nango_configs w) = nango_configs w"
      using True by (intro map_if_none) 
    ultimately show ?thesis using assms True w3 unfolding unfold Let_def by auto
  next
    case False
    then have "\<not> length (filter ?hit (nango_configs w)) \<le> 0" using cnt by simp
    then show ?thesis using assms False unfolding unfold Let_def by auto
  qed
qed


theorem deleteProviderConfig_commit_point_witness:
  "deleteProviderConfig True 7 8 1 1 ''crm''
      (empty_world\<lparr>nango_configs := [hubspot_config\<lparr>deleted := True\<rparr>],
                   nango_connections := [\<lparr>row_id = Some 5, environment_id = 1, deleted = False,
                       deleted_at = None, provider_config_key = ''crm'', connection_id = ''acme''\<rparr>]\<rparr>)
     = (False, empty_world\<lparr>nango_configs := [hubspot_config\<lparr>deleted := True\<rparr>],
                   nango_connections := [\<lparr>row_id = Some 5, environment_id = 1, deleted = False,
                       deleted_at = None, provider_config_key = ''crm'', connection_id = ''acme''\<rparr>]\<rparr>) \<and>
   \<not> (row_id (hubspot_config\<lparr>deleted := True\<rparr>) = Some 1 \<and>
      \<not> deleted (hubspot_config\<lparr>deleted := True\<rparr>))"
proof -
  have run: "deleteProviderConfig True 7 8 1 1 ''crm''
      (empty_world\<lparr>nango_configs := [hubspot_config\<lparr>deleted := True\<rparr>],
                   nango_connections := [\<lparr>row_id = Some 5, environment_id = 1, deleted = False,
                       deleted_at = None, provider_config_key = ''crm'', connection_id = ''acme''\<rparr>]\<rparr>)
     = (False, empty_world\<lparr>nango_configs := [hubspot_config\<lparr>deleted := True\<rparr>],
                   nango_connections := [\<lparr>row_id = Some 5, environment_id = 1, deleted = False,
                       deleted_at = None, provider_config_key = ''crm'', connection_id = ''acme''\<rparr>]\<rparr>)"
    by (simp add: deleteProviderConfig_def deleteSyncConfigByConfigId_def deleteSyncFilesForConfig_def
        deleteSyncsByProviderConfig_def Let_def)
  from deleteProviderConfig_commit_point [OF run] run show ?thesis by simp
qed



section \<open>The orchestrator: partial failure and aggregation\<close>

lemma getProviderConfig_frame:
  "nango_syncs (snd (getProviderConfig mgr k e w)) = nango_syncs w"
  "activity_log (snd (getProviderConfig mgr k e w)) = activity_log w"
  by (simp_all add: getProviderConfig_def call_decryptProviderConfig_def split: option.splits)

lemma start_connections_failure:
  assumes ok: "\<forall>call. cc_connection call \<in> set pre \<longrightarrow> startContinuous call = None"
    and bad: "\<forall>call. cc_connection call = k \<longrightarrow> startContinuous call = Some e"
  shows "fst (start_connections (Some startContinuous) (pre @ k # post) cfg n sy dbg w) = Some e \<and>
         map nango_connection_id (nango_syncs (snd (start_connections (Some startContinuous) (pre @ k # post) cfg n sy dbg w)))
           = map nango_connection_id (nango_syncs w) @ map row_id (pre @ [k]) \<and>
         activity_log (snd (start_connections (Some startContinuous) (pre @ k # post) cfg n sy dbg w))
           = activity_log w"
  using ok
proof (induction pre arbitrary: w)
  case Nil
  show ?case using bad by (simp add: createSync_def Let_def)
next
  case (Cons c pre)
  let ?w1 = "snd (createSync (row_id c) n w)"
  let ?call = "\<lparr>cc_connection = c, cc_sync = fst (createSync (row_id c) n w),
                       cc_config = cfg, cc_syncName = n,
                       cc_returns = models sy, cc_debug = dbg\<rparr>"
  have none: "startContinuous ?call = None" using Cons.prems by simp
  have step: "start_connections (Some startContinuous) ((c # pre) @ k # post) cfg n sy dbg w
      = start_connections (Some startContinuous) (pre @ k # post) cfg n sy dbg
          (?w1\<lparr>client_calls := client_calls ?w1 @ [?call]\<rparr>)"
    using none by (simp add: Let_def split_def)
  have ih: "\<forall>call. cc_connection call \<in> set pre \<longrightarrow> startContinuous call = None"
    using Cons.prems by simp
  show ?case unfolding step using Cons.IH [OF ih, of "?w1\<lparr>client_calls := client_calls ?w1 @ [?call]\<rparr>"]
    by (simp add: createSync_def Let_def)
qed

lemma create_failure:
  assumes ok: "\<forall>call. cc_connection call \<in> set pre \<longrightarrow> startContinuous call = None"
    and bad: "\<forall>call. cc_connection call = k \<longrightarrow> startContinuous call = Some e"
  shows "fst (create mgr (Some startContinuous) (pre @ k # post) n key env sy dbg aid w) = False \<and>
         map nango_connection_id (nango_syncs (snd (create mgr (Some startContinuous) (pre @ k # post) n key env sy dbg aid w)))
           = map nango_connection_id (nango_syncs w) @ map row_id (pre @ [k]) \<and>
         last (activity_log (snd (create mgr (Some startContinuous) (pre @ k # post) n key env sy dbg aid w)))
           = \<lparr>level = Error, activity_log_id = aid,
              content = ErrorStarting n (length (pre @ k # post)) e\<rparr>"
proof -
  obtain cfg w1 where g: "getProviderConfig mgr key env w = (cfg, w1)" by (cases "getProviderConfig mgr key env w")
  have w1: "nango_syncs w1 = nango_syncs w" using getProviderConfig_frame(1) [of mgr key env w] g by simp
  define w2 where "w2 = (if dbg \<and> js_truthy_number aid
                then createActivityLogMessage
                       \<lparr>level = Debug, activity_log_id = aid,
                        content = Beginning n (length (pre @ k # post))\<rparr> w1
                else w1)"
  have w2: "nango_syncs w2 = nango_syncs w" using w1 by (simp add: w2_def createActivityLogMessage_def)
  obtain r w3 where s: "start_connections (Some startContinuous) (pre @ k # post) cfg n sy dbg w2 = (r, w3)"
    by (cases "start_connections (Some startContinuous) (pre @ k # post) cfg n sy dbg w2")
  from start_connections_failure [OF ok bad, of post cfg n sy dbg w2] s
  have r: "r = Some e" and w3: "map nango_connection_id (nango_syncs w3) = map nango_connection_id (nango_syncs w2) @ map row_id (pre @ [k])"
    by simp_all
  have "create mgr (Some startContinuous) (pre @ k # post) n key env sy dbg aid w =
     (False, createActivityLogMessage \<lparr>level = Error, activity_log_id = aid,
                 content = ErrorStarting n (length (pre @ k # post)) e\<rparr> w3)"
    unfolding create_def g using s r by (simp add: w2_def Let_def)
  then show ?thesis using w3 w2 by (simp add: createActivityLogMessage_def)
qed

lemma createSyncs_loop_eq:
  "createSyncs_loop mgr client args dbg aid success w =
     (success \<and> (\<forall>i<length args. fst (create_request mgr client dbg aid (args ! i)
                      (foldl (\<lambda>s a. snd (create_request mgr client dbg aid a s)) w (take i args)))),
      foldl (\<lambda>s a. snd (create_request mgr client dbg aid a s)) w args)"
proof (induction args arbitrary: success w)
  case Nil
  show ?case by simp
next
  case (Cons a args)
  show ?case
    by (simp add: Cons.IH split_def Let_def All_less_Suc2 del: All_less_Suc)
qed

lemmas run_defs = createSyncs_def create_request_def create_def getProviderConfig_def
  createSync_def createActivityLogMessage_def js_truthy_number_def Let_def

text \<open>
  C2, as stated, fails: the \<^verbatim>\<open>try\<close> block encloses the whole loop over the connections,
  so the exception of connection k leaves the loop. With three connections of which the
  second fails to start, the third gets no Sync record.
\<close>

theorem create_skips_connections_after_failure:
  "fst (createSyncs demo_manager (Some failing_on_b)
          [request [conn 1 ''a'', conn 2 ''b'', conn 3 ''c''] ''contacts''] False None empty_world) = False \<and>
   map nango_connection_id (nango_syncs (snd (createSyncs demo_manager (Some failing_on_b)
          [request [conn 1 ''a'', conn 2 ''b'', conn 3 ''c''] ''contacts''] False None empty_world)))
     = [Some 1, Some 2] \<and>
   row_id (conn 3 ''c'') \<notin> set (map nango_connection_id (nango_syncs (snd (createSyncs demo_manager (Some failing_on_b)
          [request [conn 1 ''a'', conn 2 ''b'', conn 3 ''c''] ''contacts''] False None empty_world))))"
  by (simp add: run_defs)

text \<open>
  C2, amended. When the start command of connection k raises and those of the
  connections before k do not, the request yields false, no exception leaves it and an
  error entry carrying the flow name, the number of connections and the exception ends
  the activity log; a Sync record was created for each connection up to and including k,
  in the submitted order, and for no connection after k. createSyncs yields false for any
  list of requests that contains this request, and it still runs every request of the
  list, each in the state its predecessors left: the remaining requests are processed.
\<close>

theorem create_stops_at_failing_connection:
  assumes ok: "\<forall>call. cc_connection call \<in> set pre \<longrightarrow> startContinuous call = None"
    and bad: "\<forall>call. cc_connection call = k \<longrightarrow> startContinuous call = Some e"
    and req: "args_connections req = pre @ k # post"
  shows "\<not> fst (create_request mgr (Some startContinuous) dbg aid req w) \<and>
         map nango_connection_id
             (nango_syncs (snd (create_request mgr (Some startContinuous) dbg aid req w)))
           = map nango_connection_id (nango_syncs w) @ map row_id (pre @ [k]) \<and>
         last (activity_log (snd (create_request mgr (Some startContinuous) dbg aid req w)))
           = \<lparr>level = Error, activity_log_id = aid,
              content = ErrorStarting (args_syncName req) (length (pre @ k # post)) e\<rparr> \<and>
         (req \<in> set reqs \<longrightarrow> \<not> fst (createSyncs mgr (Some startContinuous) reqs dbg aid w0)) \<and>
         snd (createSyncs mgr (Some startContinuous) reqs dbg aid w0) =
           foldl (\<lambda>s a. snd (create_request mgr (Some startContinuous) dbg aid a s)) w0 reqs"
proof -
  have one: "\<not> fst (create_request mgr (Some startContinuous) dbg aid req s)" for s
    using create_failure [OF ok bad, of mgr post] by (simp add: create_request_def req)
  have all: "req \<in> set reqs \<longrightarrow> \<not> fst (createSyncs mgr (Some startContinuous) reqs dbg aid w0)"
  proof
    assume "req \<in> set reqs"
    then obtain i where "i < length reqs" "reqs ! i = req" by (auto simp: in_set_conv_nth)
    then show "\<not> fst (createSyncs mgr (Some startContinuous) reqs dbg aid w0)"
      using one by (auto simp: createSyncs_def createSyncs_loop_eq)
  qed
  have every: "snd (createSyncs mgr (Some startContinuous) reqs dbg aid w0) =
           foldl (\<lambda>s a. snd (create_request mgr (Some startContinuous) dbg aid a s)) w0 reqs"
    by (simp add: createSyncs_def createSyncs_loop_eq)
  show ?thesis
    using one all every create_failure [OF ok bad, of mgr post "args_syncName req" "args_providerConfigKey req"
        "args_environmentId req" "args_sync req" dbg aid w]
    by (simp add: create_request_def req)
qed

text \<open>
  An instance: the second of three connections fails to start; the request that follows
  in the same call still gets its Sync record.
\<close>

theorem create_stops_at_failing_connection_witness:
  "failing_on_b \<lparr>cc_connection = conn 2 ''b'', cc_sync = \<lparr>sync_id = 11, nango_connection_id = Some 2, sync_name = ''contacts''\<rparr>,
        cc_config = None, cc_syncName = ''contacts'', cc_returns = [''Contact''], cc_debug = False\<rparr>
     = Some (Exn ''start failed'' ''Error'') \<and>
   \<not> fst (create_request demo_manager (Some failing_on_b) False None
          (request [conn 1 ''a'', conn 2 ''b'', conn 3 ''c''] ''contacts'') empty_world) \<and>
   map nango_connection_id (nango_syncs (snd (create_request demo_manager (Some failing_on_b) False None
          (request [conn 1 ''a'', conn 2 ''b'', conn 3 ''c''] ''contacts'') empty_world)))
     = [Some 1, Some 2] \<and>
   \<not> fst (createSyncs demo_manager (Some failing_on_b)
          [request [conn 1 ''a'', conn 2 ''b'', conn 3 ''c''] ''contacts'', request [conn 4 ''d''] ''tickets'']
          False None empty_world) \<and>
   map nango_connection_id (nango_syncs (snd (createSyncs demo_manager (Some failing_on_b)
          [request [conn 1 ''a'', conn 2 ''b'', conn 3 ''c''] ''contacts'', request [conn 4 ''d''] ''tickets'']
          False None empty_world)))
     = [Some 1, Some 2, Some 4]"
  using create_stops_at_failing_connection [of "[conn 1 ''a'']" failing_on_b "conn 2 ''b''" "Exn ''start failed'' ''Error''"
      "request [conn 1 ''a'', conn 2 ''b'', conn 3 ''c''] ''contacts''" "[conn 3 ''c'']"
      demo_manager False None empty_world
      "[request [conn 1 ''a'', conn 2 ''b'', conn 3 ''c''] ''contacts'', request [conn 4 ''d''] ''tickets'']"
      empty_world]
  by (simp add: create_request_def create_def getProviderConfig_def createSync_def
        createActivityLogMessage_def js_truthy_number_def Let_def)

text \<open>
  C4: createSyncs runs every request, each in the state its predecessors left, whether or
  not an earlier one failed, and yields true exactly when every one of them yielded true.
\<close>

theorem createSyncs_attempts_every_request:
  "createSyncs mgr client args dbg aid w =
     ((\<forall>i<length args. fst (create_request mgr client dbg aid (args ! i)
                      (foldl (\<lambda>s a. snd (create_request mgr client dbg aid a s)) w (take i args)))),
      foldl (\<lambda>s a. snd (create_request mgr client dbg aid a s)) w args)"
  by (simp add: createSyncs_def createSyncs_loop_eq)


theorem createSyncs_attempts_every_request_witness:
  "fst (createSyncs demo_manager (Some failing_on_b)
          [request [conn 1 ''a'', conn 2 ''b'', conn 3 ''c''] ''contacts'', request [conn 4 ''d''] ''tickets'']
          False None empty_world) = False \<and>
   map nango_connection_id (nango_syncs (snd (createSyncs demo_manager (Some failing_on_b)
          [request [conn 1 ''a'', conn 2 ''b'', conn 3 ''c''] ''contacts'', request [conn 4 ''d''] ''tickets'']
          False None empty_world))) = [Some 1, Some 2, Some 4]"
  using createSyncs_attempts_every_request [of demo_manager "Some failing_on_b"
          "[request [conn 1 ''a'', conn 2 ''b'', conn 3 ''c''] ''contacts'', request [conn 4 ''d''] ''tickets'']"
          False None empty_world]
  by (simp add: run_defs)

section \<open>The presentation: grouping and the comparator\<close>

lemma compareFlows_get_post:
  "compareFlows (customers_entry ''GET'') (customers_entry ''POST'') = - 1 \<and>
   compareFlows (customers_entry ''POST'') (customers_entry ''GET'') = - 1"
  by (simp add: compareFlows_def count_slashes_def)

lemma insertionSort_pair:
  "insertionSort cmp [x, y] = (if cmp x y > 0 then [y, x] else [x, y])"
  by (simp add: insertionSort_def)

lemma compareFlows_fewer_separators:
  "count_slashes (path (endpoint a)) < count_slashes (path (endpoint b)) \<Longrightarrow>
     compareFlows a b = - 1 \<and> compareFlows b a = 1"
  by (simp add: compareFlows_def Let_def)


text \<open>
  Verbs that are not neighbours in the chain are not ordered by verb: with equal numbers
  of separators PATCH /a goes before POST /z, by the paths.
\<close>

lemma compareFlows_post_patch:
  "compareFlows (customers_entry ''POST''\<lparr>endpoint := \<lparr>verb = ''POST'', path = ''/z''\<rparr>\<rparr>)
                (customers_entry ''PATCH''\<lparr>endpoint := \<lparr>verb = ''PATCH'', path = ''/a''\<rparr>\<rparr>) = 1 \<and>
   compareFlows (customers_entry ''PATCH''\<lparr>endpoint := \<lparr>verb = ''PATCH'', path = ''/a''\<rparr>\<rparr>)
                (customers_entry ''POST''\<lparr>endpoint := \<lparr>verb = ''POST'', path = ''/z''\<rparr>\<rparr>) = - 1"
  by (simp add: compareFlows_def count_slashes_def)

lemma push_group_ok: "tmp_ok tmp \<Longrightarrow> entry_ok e \<Longrightarrow> tmp_ok (push_group n e tmp)"
  unfolding tmp_ok_def push_group_def
  by (auto split: option.splits if_splits)

lemma group_endpoint_ok:
  assumes "tmp_ok tmp" and "ep \<in> set (endpoints fl)" and "group_endpoint fl ep tmp = Inr tmp'"
  shows "tmp_ok tmp'"
proof (cases ep)
  case Nil
  then show ?thesis using assms by (simp add: group_endpoint_def)
next
  case (Cons entries rest)
  show ?thesis
  proof (cases "truthy (js_nth (split_slash (snd entries)) 1)")
    case False
    then show ?thesis using assms Cons by (simp add: group_endpoint_def Let_def)
  next
    case True
    let ?e = "flow.extend fl (flowWithEndpoint.fields \<lparr>verb = fst entries, path = snd entries\<rparr>)"
    have "entry_ok ?e"
      using True assms(2) Cons
      by (auto simp: entry_ok_def flow.defs flowWithEndpoint.defs)
    then show ?thesis
      using assms(1,3) Cons True push_group_ok by (auto simp: group_endpoint_def Let_def)
  qed
qed

lemma group_endpoints_ok:
  "tmp_ok tmp \<Longrightarrow> set eps \<subseteq> set (endpoints fl) \<Longrightarrow> group_endpoints fl eps tmp = Inr tmp' \<Longrightarrow> tmp_ok tmp'"
proof (induction eps arbitrary: tmp)
  case Nil
  then show ?case by simp
next
  case (Cons ep eps)
  then show ?case
    by (auto split: sum.splits dest: group_endpoint_ok [where fl = fl and ep = ep])
qed

lemma group_flows_loop_ok:
  "tmp_ok tmp \<Longrightarrow> group_flows_loop fls tmp = Inr tmp' \<Longrightarrow> tmp_ok tmp'"
proof (induction fls arbitrary: tmp)
  case Nil
  then show ?case by simp
next
  case (Cons fl fls)
  then show ?case
    by (auto split: sum.splits dest: group_endpoints_ok [where fl = fl and eps = "endpoints fl"])
qed

lemma byGroup_entries_ok:
  assumes perm: "\<And>cmp xs. set (engine_sort cmp xs) = set xs"
    and run: "byGroup engine_sort (Some flows) = Inr groups"
    and g: "g \<in> set groups" and e: "e \<in> set (group_flows g)"
  shows "entry_ok e"
proof -
  from run obtain tmp where tmp: "group_flows_loop flows [] = Inr tmp"
    and groups: "groups = map (\<lambda>(n, group). \<lparr>group_name = n, group_flows = engine_sort compareFlows group\<rparr>) tmp"
    by (auto simp: byGroup_def split: sum.splits)
  have "tmp_ok tmp" using group_flows_loop_ok [OF _ tmp] by (simp add: tmp_ok_def)
  then show ?thesis using g e groups perm by (auto simp: tmp_ok_def)
qed

lemma set_insert_from_right: "set (insert_from_right cmp x xs) = insert x (set xs)"
  by (induction xs) auto

lemma set_foldl_insert:
  "set (foldl (\<lambda>sorted_rev x. insert_from_right cmp x sorted_rev) acc xs) = set acc \<union> set xs"
  by (induction xs arbitrary: acc) (auto simp: set_insert_from_right)

lemma set_insertionSort: "set (insertionSort cmp xs) = set xs"
  by (simp add: insertionSort_def set_foldl_insert)

lemma first_segment_samples:
  "\<not> truthy (js_nth (split_slash ''/'') 1)" "\<not> truthy (js_nth (split_slash []) 1)"
  by (simp_all add: js_nth_def)

text \<open>
  C6 does not hold of the comparator: for GET /customers and POST /customers it answers
  \<open>-1\<close>, "the first argument goes first", in both argument orders. Whatever engine
  orders a two-element array from the answers of the comparator, it treats the two input
  orders alike, so the GET entry cannot come first for both.
\<close>

theorem sort_get_post_depends_on_input_order:
  assumes "\<forall>x y. engine_sort compareFlows [x, y] =
             (if decide (compareFlows x y) (compareFlows y x) then [y, x] else [x, y])"
  shows "\<not> (hd (engine_sort compareFlows [customers_entry ''GET'', customers_entry ''POST''])
              = customers_entry ''GET'' \<and>
            hd (engine_sort compareFlows [customers_entry ''POST'', customers_entry ''GET''])
              = customers_entry ''GET'')"
proof (cases "decide (- 1) (- 1)")
  case True
  then show ?thesis using assms compareFlows_get_post by simp
next
  case False
  then show ?thesis using assms compareFlows_get_post by simp
qed

text \<open>An instance: straight insertion leaves POST /customers before GET /customers.\<close>

theorem sort_get_post_depends_on_input_order_witness:
  "hd (insertionSort compareFlows [customers_entry ''POST'', customers_entry ''GET''])
     = customers_entry ''POST'' \<and>
   \<not> (hd (insertionSort compareFlows [customers_entry ''GET'', customers_entry ''POST''])
              = customers_entry ''GET'' \<and>
            hd (insertionSort compareFlows [customers_entry ''POST'', customers_entry ''GET''])
              = customers_entry ''GET'')"
  using sort_get_post_depends_on_input_order [of insertionSort "\<lambda>a b. a > 0"] compareFlows_get_post
  by (simp add: insertionSort_pair)

text \<open>
  C10: whatever engine sorts the groups (it only permutes them), every entry of the
  presentation has a path with a non-empty segment after the first separator; so a flow
  whose endpoints all lack such a segment (path \<^verbatim>\<open>/\<close>, the empty path) appears in no
  group, not even in "others".
\<close>

theorem byGroup_drops_empty_first_segment:
  assumes perm: "\<And>cmp xs. set (engine_sort cmp xs) = set xs"
    and run: "byGroup engine_sort (Some flows) = Inr groups"
  shows "(\<forall>g \<in> set groups. \<forall>e \<in> set (group_flows g).
            truthy (js_nth (split_slash (path (endpoint e))) 1)) \<and>
         ((\<forall>ep \<in> set (endpoints f). \<forall>entries rest. ep = entries # rest \<longrightarrow>
              \<not> truthy (js_nth (split_slash (snd entries)) 1)) \<longrightarrow>
          (\<forall>g \<in> set groups. \<forall>e \<in> set (group_flows g). flow.truncate e \<noteq> f))"
  using byGroup_entries_ok [OF perm run]
  by (fastforce simp: entry_ok_def)

theorem byGroup_drops_empty_first_segment_witness:
  "byGroup insertionSort (Some [root_flow, tickets_sync]) =
     Inr [\<lparr>group_name = ''tickets'',
           group_flows = [flow.extend tickets_sync (flowWithEndpoint.fields \<lparr>verb = ''GET'', path = ''/tickets''\<rparr>)]\<rparr>] \<and>
   \<not> truthy (js_nth (split_slash ''/'') 1) \<and>
   flow.truncate (flow.extend tickets_sync (flowWithEndpoint.fields \<lparr>verb = ''GET'', path = ''/tickets''\<rparr>)) \<noteq> root_flow"
proof -
  have run: "byGroup insertionSort (Some [root_flow, tickets_sync]) =
     Inr [\<lparr>group_name = ''tickets'',
           group_flows = [flow.extend tickets_sync (flowWithEndpoint.fields \<lparr>verb = ''GET'', path = ''/tickets''\<rparr>)]\<rparr>]"
    by (simp add: byGroup_def group_endpoint_def js_nth_def push_group_def allowedGroup_def
          insertionSort_def Let_def)
  from byGroup_drops_empty_first_segment [of insertionSort, OF set_insertionSort run, of root_flow] run
  show ?thesis by (simp add: js_nth_def)
qed

end
